theory Spec2Isabelle
  imports Complex_Main "HOL-Library.Log_Nat"
begin

section \<open>Numbers and dictionaries\<close>

text \<open>
  The measurements and the metrics are Python floats: binary64 numbers. A float is
  modelled as the real number it stands for. Every arithmetic operation of the source
  returns the binary64 number nearest to the exact result, a tie going to the even
  mantissa, and so does every literal that is not an integer: the model writes
  \<open>double\<close> around each of them. Infinities and NaN are outside the model: it
  describes the runs in which every result stays below \<open>2 ^ 1024\<close> in magnitude.
  Every branch of the source is kept as it is written.
\<close>

definition round_half_even :: "real \<Rightarrow> int" where
  "round_half_even y =
     (let f = \<lfloor>y\<rfloor>; d = y - of_int f
      in if d < 1 / 2 then f
         else if 1 / 2 < d then f + 1
         else if even f then f else f + 1)"

text \<open>
  The binary exponent of a number that is not 0: the \<open>e\<close> with
  \<open>2 ^ e \<le> \<bar>x\<bar> < 2 ^ (e + 1)\<close>, found through the bit length of an integer.
\<close>

definition exponent :: "real \<Rightarrow> int" where
  "exponent x =
     (let a = \<bar>x\<bar>
      in if 1 \<le> a then int (floorlog 2 (nat \<lfloor>a\<rfloor>)) - 1
         else if 0 < a then - int (floorlog 2 (nat (\<lceil>1 / a\<rceil> - 1)))
         else 0)"

text \<open>
  Rounding to binary64: a mantissa of 53 bits, and below \<open>2 ^ - 1022\<close> the fixed
  spacing \<open>2 ^ - 1074\<close> of the subnormal numbers.
\<close>

definition double :: "real \<Rightarrow> real" where
  "double x =
     (let ulp = 2 powi (max (exponent x) (- 1022) - 52)
      in of_int (round_half_even (x / ulp)) * ulp)"

text \<open>
  Python's \<^verbatim>\<open>round(x, ndigits)\<close> rounds the exact value of the float to the
  nearest multiple of \<^verbatim>\<open>10 ** -ndigits\<close>, a tie going to the even neighbour,
  and returns the float nearest to that decimal.
\<close>

definition decimal_round :: "real \<Rightarrow> nat \<Rightarrow> real" where
  "decimal_round x ndigits = of_int (round_half_even (x * 10 ^ ndigits)) / 10 ^ ndigits"

definition py_round :: "real \<Rightarrow> nat \<Rightarrow> real" where
  "py_round x ndigits = double (decimal_round x ndigits)"

text \<open>The sum of a list of floats, added one after the other from 0.\<close>

definition float_sum :: "real list \<Rightarrow> real" where
  "float_sum xs = foldl (\<lambda>s v. double (s + v)) 0 xs"

text \<open>
  A dictionary with string keys, in insertion order. \<^verbatim>\<open>d.get(k, default)\<close>
  never raises: an absent key reads as the default.
\<close>

type_synonym 'v dict = "(string \<times> 'v) list"

definition dict_get :: "'v dict \<Rightarrow> string \<Rightarrow> 'v \<Rightarrow> 'v" where
  "dict_get d k dflt = (case map_of d k of None \<Rightarrow> dflt | Some v \<Rightarrow> v)"

text \<open>\<^verbatim>\<open>sep.join(parts)\<close>\<close>

fun str_join :: "string \<Rightarrow> string list \<Rightarrow> string" where
  "str_join sep [] = []"
| "str_join sep [s] = s"
| "str_join sep (s # t # ss) = s @ sep @ str_join sep (t # ss)"

section \<open>utils.py\<close>

subsection \<open>calculate_metrics\<close>

text \<open>
  \<^verbatim>\<open>x if heat_input else 0\<close> tests the truth of a number: it is true when the
  number is not zero.
\<close>

definition calculate_metrics ::
  "real \<Rightarrow> real \<Rightarrow> real \<Rightarrow> real \<Rightarrow> real \<Rightarrow> real \<Rightarrow> real \<Rightarrow> real \<Rightarrow> real dict" where
  "calculate_metrics coal_flow gcv steam_flow h_steam h_feed power_output flue_temp ambient_temp =
     (let heat_input = double (coal_flow * gcv);
          steam_energy = double (steam_flow * double (h_steam - h_feed));
          boiler_efficiency =
            (if heat_input \<noteq> 0 then double (double (steam_energy / heat_input) * 100) else 0);
          heat_rate = (if power_output \<noteq> 0 then double (heat_input / power_output) else 0);
          sfc = (if power_output \<noteq> 0 then double (coal_flow / power_output) else 0);
          cp_flue_gas = double 0.24;
          flue_gas_flow = double (double 1.5 * coal_flow);
          flue_gas_loss =
            (if heat_input \<noteq> 0
             then double (double (double (double (double (flue_temp - ambient_temp)
                    * cp_flue_gas) * flue_gas_flow) / heat_input) * 100)
             else 0);
          co2_emissions = double (coal_flow * double 2.32)
      in [(''Boiler Efficiency (%)'', py_round boiler_efficiency 2),
          (''Heat Rate (kcal/kWh)'', py_round heat_rate 2),
          (''Specific Fuel Consumption (kg/kWh)'', py_round sfc 4),
          (''Flue Gas Loss (%)'', py_round flue_gas_loss 2),
          (''CO2 Emissions (kg/hr)'', py_round co2_emissions 2)])"

subsection \<open>generate_recommendations\<close>

text \<open>
  The messages are the UTF-8 bytes of the source's literals. Each starts with one of
  three marks: a check mark, a warning sign or a cross.
\<close>

definition check_mark :: string where
  "check_mark = [CHR 0xE2, CHR 0x9C, CHR 0x85]"

definition warning_sign :: string where
  "warning_sign = [CHR 0xE2, CHR 0x9A, CHR 0xA0, CHR 0xEF, CHR 0xB8, CHR 0x8F]"

definition cross_mark :: string where
  "cross_mark = [CHR 0xE2, CHR 0x9D, CHR 0x8C]"

definition be_excellent :: string where
  "be_excellent = check_mark @ '' Excellent boiler efficiency.''"

definition be_moderate :: string where
  "be_moderate = warning_sign @ '' Moderate efficiency. Optimize air/fuel ratio.''"

definition be_low :: string where
  "be_low = cross_mark @ '' Low efficiency. Improve combustion or insulation.''"

definition hr_high :: string where
  "hr_high = cross_mark @ '' High heat rate. Check turbines & steam conditions.''"

definition hr_slightly_high :: string where
  "hr_slightly_high = warning_sign @ '' Slightly high heat rate. Review operations.''"

definition hr_efficient :: string where
  "hr_efficient = check_mark @ '' Efficient heat rate.''"

definition sfc_high :: string where
  "sfc_high = cross_mark @ '' High fuel usage. Check fuel quality.''"

definition sfc_improve :: string where
  "sfc_improve = warning_sign @ '' Improve combustion.''"

definition sfc_efficient :: string where
  "sfc_efficient = check_mark @ '' Efficient fuel use.''"

definition fl_high :: string where
  "fl_high = cross_mark @ '' High flue gas loss. Add economizers.''"

definition fl_consider :: string where
  "fl_consider = warning_sign @ '' Consider better insulation.''"

definition fl_good :: string where
  "fl_good = check_mark @ '' Heat recovery is good.''"

definition co2_high :: string where
  "co2_high = warning_sign @ '' High CO'' @ [CHR 0xE2, CHR 0x82, CHR 0x82]
     @ '' emissions. Explore cleaner fuels or carbon capture.''"

text \<open>The list \<^verbatim>\<open>rec\<close> as it stands before the final join.\<close>

definition recommendations :: "real dict \<Rightarrow> string list" where
  "recommendations metrics =
     (let be = dict_get metrics ''Boiler Efficiency (%)'' 0;
          rec = [if 85 < be then be_excellent
                 else if 70 \<le> be then be_moderate
                 else be_low];
          hr = dict_get metrics ''Heat Rate (kcal/kWh)'' 0;
          rec = rec @ [if 3000 < hr then hr_high
                       else if 2500 < hr then hr_slightly_high
                       else hr_efficient];
          sfc = dict_get metrics ''Specific Fuel Consumption (kg/kWh)'' 0;
          rec = rec @ [if double 0.75 < sfc then sfc_high
                       else if double 0.6 < sfc then sfc_improve
                       else sfc_efficient];
          fl = dict_get metrics ''Flue Gas Loss (%)'' 0;
          rec = rec @ [if 10 < fl then fl_high
                       else if 5 < fl then fl_consider
                       else fl_good];
          co2 = dict_get metrics ''CO2 Emissions (kg/hr)'' 0
      in if 8000 < co2 then rec @ [co2_high] else rec)"

definition generate_recommendations :: "real dict \<Rightarrow> string" where
  "generate_recommendations metrics = str_join [CHR 0x0A, CHR 0x0A] (recommendations metrics)"

text \<open>
  The severity a message carries is read from its mark: the check mark is good, the
  warning sign a warning, the cross critical.
\<close>

datatype severity = Good | Warning | Critical

definition severity_of :: "string \<Rightarrow> severity option" where
  "severity_of msg =
     (if take (length check_mark) msg = check_mark then Some Good
      else if take (length warning_sign) msg = warning_sign then Some Warning
      else if take (length cross_mark) msg = cross_mark then Some Critical
      else None)"

section \<open>Batch_Analysis.py\<close>

subsection \<open>calculate_metrics\<close>

text \<open>
  The file has a calculator of its own. An argument is a number, or it is missing
  (\<^verbatim>\<open>None\<close> or NaN, where \<^verbatim>\<open>pd.notna\<close> is false). On a number
  \<^verbatim>\<open>pd.to_numeric(x, errors='coerce')\<close> returns it; a missing argument becomes 0.
\<close>

definition to_numeric_if_notna_else_0 :: "real option \<Rightarrow> real" where
  "to_numeric_if_notna_else_0 x = (case x of Some v \<Rightarrow> v | None \<Rightarrow> 0)"

definition Batch_calculate_metrics ::
  "real option \<Rightarrow> real option \<Rightarrow> real option \<Rightarrow> real option \<Rightarrow> real option \<Rightarrow>
   real option \<Rightarrow> real option \<Rightarrow> real option \<Rightarrow> real dict" where
  "Batch_calculate_metrics coal_flow gcv steam_flow steam_h feed_h power_output flue_temp amb_temp =
     (let coal_flow = to_numeric_if_notna_else_0 coal_flow;
          gcv = to_numeric_if_notna_else_0 gcv;
          steam_flow = to_numeric_if_notna_else_0 steam_flow;
          steam_h = to_numeric_if_notna_else_0 steam_h;
          feed_h = to_numeric_if_notna_else_0 feed_h;
          power_output = to_numeric_if_notna_else_0 power_output;
          flue_temp = to_numeric_if_notna_else_0 flue_temp;
          amb_temp = to_numeric_if_notna_else_0 amb_temp;
          energy_input = double (coal_flow * gcv);
          steam_energy = double (steam_flow * double (steam_h - feed_h));
          efficiency =
            (if energy_input \<noteq> 0 then double (double (steam_energy / energy_input) * 100)
             else 0);
          plant_heat_rate =
            (if power_output \<noteq> 0 then double (energy_input / power_output) else 0);
          specific_fuel_consumption =
            (if power_output \<noteq> 0 then double (coal_flow / power_output) else 0);
          co2_emissions = double (coal_flow * double 2.29);
          flue_loss = double (double (flue_temp - amb_temp) * double 0.25)
      in [(''Boiler Efficiency'', efficiency),
          (''Plant Heat Rate (kcal/kWh)'', plant_heat_rate),
          (''Specific Fuel Consumption (kg/kWh)'', specific_fuel_consumption),
          (''Flue Gas Loss'', flue_loss),
          (''CO2 Emissions (kg/hr)'', co2_emissions)])"

subsection \<open>generate_recommendations\<close>

text \<open>
  Each message is a template filled with the value by \<^verbatim>\<open>str.format\<close>. The
  formatting of the number is not evaluated: a message is the template together with
  the value that fills it. The templates are the bytes of the file's literals.
\<close>

datatype message = Format string real

definition Batch_check_mark :: string where
  "Batch_check_mark = [CHR 0xE2, CHR 0x80, CHR 0x9A, CHR 0xC3, CHR 0xBA, CHR 0xC3, CHR 0x96]"

definition Batch_warning_sign :: string where
  "Batch_warning_sign = [CHR 0xE2, CHR 0x80, CHR 0x9A, CHR 0xC3, CHR 0xB6, CHR 0xE2,
       CHR 0x80, CHR 0xA0, CHR 0xC3, CHR 0x94, CHR 0xE2, CHR 0x88, CHR 0x8F, CHR 0xC3,
       CHR 0xA8]"

definition Batch_cross_mark :: string where
  "Batch_cross_mark = [CHR 0xE2, CHR 0x80, CHR 0x9A, CHR 0xC3, CHR 0xB9, CHR 0xC3, CHR 0xA5]"

definition Batch_subscript_two :: string where
  "Batch_subscript_two = [CHR 0xE2, CHR 0x80, CHR 0x9A, CHR 0xC3, CHR 0x87, CHR 0xC3,
       CHR 0x87]"

definition avg_be_excellent :: string where
  "avg_be_excellent =
     Batch_check_mark
     @ '' **Boiler Efficiency (Avg: {:.2f}%)**: Excellent. Maintain current''
     @ '' operation and schedule routine maintenance.''"

definition avg_be_good :: string where
  "avg_be_good =
     Batch_warning_sign
     @ '' **Boiler Efficiency (Avg: {:.2f}%)**: Good, but room for''
     @ '' improvement. Optimize excess air supply, clean heat transfer''
     @ '' surfaces (e.g., soot blowing).''"

definition avg_be_inefficient :: string where
  "avg_be_inefficient =
     Batch_cross_mark
     @ '' **Boiler Efficiency (Avg: {:.2f}%)**: Inefficient. Check for''
     @ '' incomplete combustion, poor coal quality, leaks, and fouling in''
     @ '' boiler tubes. Consider retrofitting economizers or better insulation.''"

definition avg_hr_efficient :: string where
  "avg_hr_efficient =
     Batch_check_mark
     @ '' **Plant Heat Rate (Avg: {:.2f} kcal/kWh)**: Efficient. Maintain load''
     @ '' management and keep equipment in tuned condition.''"

definition avg_hr_average :: string where
  "avg_hr_average =
     Batch_warning_sign
     @ '' **Plant Heat Rate (Avg: {:.2f} kcal/kWh)**: Average. Inspect turbine''
     @ '' sealing, condenser vacuum, and reheater losses.''"

definition avg_hr_inefficient :: string where
  "avg_hr_inefficient =
     Batch_cross_mark
     @ '' **Plant Heat Rate (Avg: {:.2f} kcal/kWh)**: Inefficient. Audit heat''
     @ '' exchangers, check turbine performance, condenser vacuum issues, and''
     @ '' unaccounted auxiliary consumption.''"

definition avg_sfc_efficient :: string where
  "avg_sfc_efficient =
     Batch_check_mark
     @ '' **Specific Fuel Consumption (Avg: {:.2f} kg/kWh)**: Efficient.''
     @ '' Ensure consistent coal quality and maintain feed systems.''"

definition avg_sfc_acceptable :: string where
  "avg_sfc_acceptable =
     Batch_warning_sign
     @ '' **Specific Fuel Consumption (Avg: {:.2f} kg/kWh)**: Acceptable.''
     @ '' Verify air-fuel ratio, minimize unburnt carbon.''"

definition avg_sfc_high :: string where
  "avg_sfc_high =
     Batch_cross_mark
     @ '' **Specific Fuel Consumption (Avg: {:.2f} kg/kWh)**: High. Recommend''
     @ '' coal quality improvement, combustion tuning, and reducing clinker''
     @ '' formation.''"

definition avg_fl_optimal :: string where
  "avg_fl_optimal =
     Batch_check_mark
     @ '' **Flue Gas Loss (Avg: {:.2f}%)**: Optimal flue gas recovery. Keep''
     @ '' stack temperature and air ratio monitored.''"

definition avg_fl_moderate :: string where
  "avg_fl_moderate =
     Batch_warning_sign
     @ '' **Flue Gas Loss (Avg: {:.2f}%)**: Moderate loss. Consider preheating''
     @ '' combustion air or recovering heat using economizer.''"

definition avg_fl_high :: string where
  "avg_fl_high =
     Batch_cross_mark
     @ '' **Flue Gas Loss (Avg: {:.2f}%)**: High heat loss. Suggest urgent''
     @ '' flue gas heat recovery installation, reduce excess air, and check''
     @ '' for insulation leaks.''"

definition avg_co2_high :: string where
  "avg_co2_high =
     Batch_warning_sign
     @ '' **CO''
     @ Batch_subscript_two
     @ '' Emissions (Avg: {:.2f} kg/hr)**: High CO''
     @ Batch_subscript_two
     @ '' emissions. Explore cleaner fuels or carbon capture technologies.''"

definition avg_co2_monitor :: string where
  "avg_co2_monitor =
     Batch_check_mark
     @ '' **CO''
     @ Batch_subscript_two
     @ '' Emissions (Avg: {:.2f} kg/hr)**: Monitor CO''
     @ Batch_subscript_two
     @ '' emissions regularly and explore opportunities for reduction.''"

definition Batch_generate_recommendations :: "real dict \<Rightarrow> message list" where
  "Batch_generate_recommendations metrics =
     (let be = dict_get metrics ''Boiler Efficiency'' 0;
          rec = [if 85 < be then Format avg_be_excellent be
                 else if 70 \<le> be \<and> be \<le> 85 then Format avg_be_good be
                 else Format avg_be_inefficient be];
          hr = dict_get metrics ''Plant Heat Rate (kcal/kWh)'' 0;
          rec = rec @ [if hr < 2500 \<and> 0 < hr then Format avg_hr_efficient hr
                       else if 2500 \<le> hr \<and> hr \<le> 3000 then Format avg_hr_average hr
                       else Format avg_hr_inefficient hr];
          sfc = dict_get metrics ''Specific Fuel Consumption (kg/kWh)'' 0;
          rec = rec @ [if sfc < double 0.6 \<and> 0 < sfc then Format avg_sfc_efficient sfc
                       else if double 0.6 \<le> sfc \<and> sfc \<le> double 0.75
                         then Format avg_sfc_acceptable sfc
                       else Format avg_sfc_high sfc];
          fl = dict_get metrics ''Flue Gas Loss'' 0;
          rec = rec @ [if fl < 5 \<and> 0 < fl then Format avg_fl_optimal fl
                       else if 5 \<le> fl \<and> fl \<le> 10 then Format avg_fl_moderate fl
                       else Format avg_fl_high fl];
          co2 = dict_get metrics ''CO2 Emissions (kg/hr)'' 0
      in if 8000 < co2 then rec @ [Format avg_co2_high co2]
         else if 0 < co2 then rec @ [Format avg_co2_monitor co2]
         else rec)"


subsection \<open>The uploaded table\<close>

text \<open>
  The page works on the frame that \<^verbatim>\<open>pd.read_csv\<close> returns. A cell holds a
  number, a text that \<^verbatim>\<open>pd.to_numeric\<close> cannot read as a number, or nothing
  (NaN). A row has a cell for every column of its frame.
\<close>

datatype cell = Num real | Text string | NaN

record dataframe =
  columns :: "string list"
  rows :: "cell dict list"

definition required_columns :: "string list" where
  "required_columns =
     [''Coal Flow'', ''GCV'', ''Steam Flow'', ''Steam Enthalpy'',
      ''Feedwater Enthalpy'', ''Power Output'', ''Flue Temp'', ''Ambient Temp'']"

definition row_get :: "cell dict \<Rightarrow> string \<Rightarrow> cell" where
  "row_get row col = dict_get row col NaN"

text \<open>\<^verbatim>\<open>[col for col in required_columns if col not in df.columns]\<close>\<close>

definition missing_cols :: "dataframe \<Rightarrow> string list" where
  "missing_cols df = filter (\<lambda>col. col \<notin> set (columns df)) required_columns"

text \<open>\<^verbatim>\<open>pd.to_numeric(df[col], errors='coerce')\<close>, cell by cell.\<close>

fun to_numeric :: "cell \<Rightarrow> cell" where
  "to_numeric (Num x) = Num x"
| "to_numeric (Text s) = NaN"
| "to_numeric NaN = NaN"

definition coerce_required :: "cell dict \<Rightarrow> cell dict" where
  "coerce_required row =
     map (\<lambda>(col, c). (col, if col \<in> set required_columns then to_numeric c else c)) row"

fun notna :: "cell \<Rightarrow> bool" where
  "notna NaN = False"
| "notna c = True"

text \<open>\<^verbatim>\<open>df.dropna(subset=required_columns)\<close>\<close>

definition dropna :: "cell dict list \<Rightarrow> cell dict list" where
  "dropna rs = filter (\<lambda>row. list_all (\<lambda>col. notna (row_get row col)) required_columns) rs"

text \<open>
  What a cell of a numeric column hands to the calculator. After the coercion such a
  cell is a number or NaN; a text is not met there.
\<close>

fun scalar :: "cell \<Rightarrow> real option" where
  "scalar (Num x) = Some x"
| "scalar c = None"

definition row_metrics :: "cell dict \<Rightarrow> real dict" where
  "row_metrics row =
     Batch_calculate_metrics
       (scalar (row_get row ''Coal Flow'')) (scalar (row_get row ''GCV''))
       (scalar (row_get row ''Steam Flow'')) (scalar (row_get row ''Steam Enthalpy''))
       (scalar (row_get row ''Feedwater Enthalpy'')) (scalar (row_get row ''Power Output''))
       (scalar (row_get row ''Flue Temp'')) (scalar (row_get row ''Ambient Temp''))"

subsection \<open>The average of the batch\<close>

definition numeric_metrics_cols :: "string list" where
  "numeric_metrics_cols =
     [''Boiler Efficiency'', ''Plant Heat Rate (kcal/kWh)'',
      ''Specific Fuel Consumption (kg/kWh)'', ''Flue Gas Loss'', ''CO2 Emissions (kg/hr)'']"

text \<open>
  A column of the frame built from the list of result dictionaries: the values of the
  rows that have the key (a row without it holds NaN there, which the mean skips).
  The uploaded table is taken to have no column that bears the name of a metric, so
  that a metric's column of the final table is the calculator's. The mean is the sum
  of the column divided by the number of its values; the sum is taken in the order of
  the rows.
\<close>

definition column_values :: "real dict list \<Rightarrow> string \<Rightarrow> real list" where
  "column_values results col = List.map_filter (\<lambda>m. map_of m col) results"

definition mean :: "real list \<Rightarrow> real" where
  "mean xs = double (float_sum xs / real (length xs))"

definition existing_metrics_for_avg :: "real dict list \<Rightarrow> string list" where
  "existing_metrics_for_avg results =
     filter (\<lambda>col. list_ex (\<lambda>m. map_of m col \<noteq> None) results) numeric_metrics_cols"

definition avg_metrics :: "real dict list \<Rightarrow> real dict" where
  "avg_metrics results =
     map (\<lambda>col. (col, mean (column_values results col))) (existing_metrics_for_avg results)"

subsection \<open>The page\<close>

text \<open>
  What one upload puts on the page: the head of the uploaded table, and then an error
  for missing columns, a warning when no row is left, or the table of results with
  the recommendations for the averages (a warning instead when no metric column
  exists).
\<close>

datatype outcome =
    MissingColumns "string list"
  | NoValidRows
  | Results "(cell dict \<times> real dict) list" "message list option"

record page =
  uploaded_data :: "cell dict list"
  audit :: outcome

definition Batch_Analysis :: "dataframe \<Rightarrow> page" where
  "Batch_Analysis df =
     \<lparr>uploaded_data = take 5 (rows df),
      audit =
        (if missing_cols df \<noteq> [] then MissingColumns (missing_cols df)
         else let cleaned = dropna (map coerce_required (rows df))
              in if cleaned = [] then NoValidRows
                 else let results = map row_metrics cleaned;
                          final_df = zip cleaned results
                      in Results final_df
                           (if existing_metrics_for_avg results = [] then None
                            else Some (Batch_generate_recommendations (avg_metrics results))))\<rparr>"

text \<open>
  The number of rows the cleaning drops. The spec asks for it; the page computes it
  nowhere.
\<close>

definition excluded_rows :: "dataframe \<Rightarrow> nat" where
  "excluded_rows df = length (rows df) - length (dropna (map coerce_required (rows df)))"

section \<open>CSV_Analysis.py\<close>

text \<open>
  This page imports the calculator of utils.py and calls it on every row of the
  uploaded table as it is. Only the calls are modelled: the cells each row hands to
  \<^verbatim>\<open>calculate_metrics\<close>, or nothing when a required column is absent. The
  cells are given as the table holds them, which is what the calculator receives from
  a column of numbers and missing values; a column that holds a text is read as
  strings throughout and is not described here.
\<close>

definition CSV_Analysis_calls :: "dataframe \<Rightarrow> cell list list option" where
  "CSV_Analysis_calls df =
     (if \<not> list_all (\<lambda>col. col \<in> set (columns df)) required_columns then None
      else Some (map (\<lambda>row. map (row_get row) required_columns) (rows df)))"

section \<open>Notions of the specification\<close>

text \<open>
  The spec's InvalidMeasurement: a required column of the row holds no number (the
  cell is missing or is not numeric).
\<close>

fun numeric :: "cell \<Rightarrow> bool" where
  "numeric (Num x) = True"
| "numeric c = False"

definition InvalidMeasurement :: "cell dict \<Rightarrow> bool" where
  "InvalidMeasurement row = list_ex (\<lambda>col. \<not> numeric (row_get row col)) required_columns"

text \<open>
  Rows of the spec's examples: the measurements of its end-to-end example, the same
  row with \<^verbatim>\<open>GCV = "n/a"\<close> (which \<^verbatim>\<open>pd.read_csv\<close> reads as NaN), and
  the same row with a GCV that is a text.
\<close>

definition sample_row :: "cell dict" where
  "sample_row =
     [(''Coal Flow'', Num 100), (''GCV'', Num 5000), (''Steam Flow'', Num 400),
      (''Steam Enthalpy'', Num 750), (''Feedwater Enthalpy'', Num 100),
      (''Power Output'', Num 200), (''Flue Temp'', Num 150), (''Ambient Temp'', Num 25)]"

definition sample_row_gcv_na :: "cell dict" where
  "sample_row_gcv_na =
     [(''Coal Flow'', Num 100), (''GCV'', NaN), (''Steam Flow'', Num 400),
      (''Steam Enthalpy'', Num 750), (''Feedwater Enthalpy'', Num 100),
      (''Power Output'', Num 200), (''Flue Temp'', Num 150), (''Ambient Temp'', Num 25)]"

definition sample_row_gcv_text :: "cell dict" where
  "sample_row_gcv_text =
     [(''Coal Flow'', Num 100), (''GCV'', Text ''unknown''), (''Steam Flow'', Num 400),
      (''Steam Enthalpy'', Num 750), (''Feedwater Enthalpy'', Num 100),
      (''Power Output'', Num 200), (''Flue Temp'', Num 150), (''Ambient Temp'', Num 25)]"

section \<open>Rounding\<close>


lemma round_half_even_zero: "round_half_even 0 = 0"
  by (simp add: round_half_even_def)



lemma round_half_even_error: "\<bar>of_int (round_half_even y) - y\<bar> \<le> 1 / 2"
proof -
  have "of_int \<lfloor>y\<rfloor> \<le> y" and "y < of_int \<lfloor>y\<rfloor> + 1"
    by linarith+
  then show ?thesis
    by (auto simp add: round_half_even_def Let_def)
qed


text \<open>The exponent is the one of the binade the number lies in.\<close>

lemma exponent_bounds:
  assumes "x \<noteq> 0"
  shows "2 powi (exponent x) \<le> \<bar>x\<bar> \<and> \<bar>x\<bar> < 2 powi (exponent x + 1)"
proof (cases "1 \<le> \<bar>x\<bar>")
  case True
  define n where "n = nat \<lfloor>\<bar>x\<bar>\<rfloor>"
  define L where "L = floorlog 2 n"
  have n: "0 < n" using True by (simp add: n_def)
  have b: "2 ^ (L - 1) \<le> n" "n < 2 ^ L"
    using floorlog_bounds[of n 2] n by (simp_all add: L_def)
  have L: "0 < L" using b(2) n by (cases L) auto
  have e: "exponent x = int L - 1"
    using True by (simp add: exponent_def L_def n_def)
  have "real n \<le> \<bar>x\<bar>" "\<bar>x\<bar> < real n + 1"
    unfolding n_def using True by linarith+
  moreover have "(2::real) ^ (L - 1) \<le> real n"
    using of_nat_mono[OF b(1), where 'a = real] by simp
  moreover have "real n + 1 \<le> (2::real) ^ L"
    using of_nat_mono[of "Suc n" "2 ^ L", where 'a = real] b(2) by simp
  moreover have "2 powi (int L - 1) = (2::real) ^ (L - 1)"
    "2 powi (int L - 1 + 1) = (2::real) ^ L"
    using L by (simp_all add: power_int_def nat_diff_distrib)
  ultimately show ?thesis unfolding e by linarith
next
  case False
  define y where "y = 1 / \<bar>x\<bar>"
  define n where "n = nat (\<lceil>y\<rceil> - 1)"
  define L where "L = floorlog 2 n"
  have a: "0 < \<bar>x\<bar>" "\<bar>x\<bar> < 1" using assms False by auto
  have y: "1 < y" using a by (simp add: y_def)
  then have c: "2 \<le> \<lceil>y\<rceil>" by linarith
  then have n: "0 < n" by (simp add: n_def)
  have b: "2 ^ (L - 1) \<le> n" "n < 2 ^ L"
    using floorlog_bounds[of n 2] n by (simp_all add: L_def)
  have L: "0 < L" using b(2) n by (cases L) auto
  have e: "exponent x = - int L"
    using a by (simp add: exponent_def L_def n_def y_def)
  have "real n < y" "y \<le> real n + 1"
    unfolding n_def using c by linarith+
  moreover have "(2::real) ^ (L - 1) \<le> real n"
    using of_nat_mono[OF b(1), where 'a = real] by simp
  moreover have "real n + 1 \<le> (2::real) ^ L"
    using of_nat_mono[of "Suc n" "2 ^ L", where 'a = real] b(2) by simp
  ultimately have yb: "2 ^ (L - 1) < y" "y \<le> 2 ^ L" by linarith+
  have p: "2 powi (- int L) = 1 / (2::real) ^ L"
    "2 powi (- int L + 1) = 1 / (2::real) ^ (L - 1)"
    using L by (simp_all add: power_int_def nat_diff_distrib field_simps)
  have "1 / 2 ^ L \<le> \<bar>x\<bar>" using yb(2) a by (simp add: y_def field_simps)
  moreover have "\<bar>x\<bar> < 1 / 2 ^ (L - 1)" using yb(1) a by (simp add: y_def field_simps)
  ultimately show ?thesis unfolding e p by simp
qed


text \<open>
  Rounding to binary64 keeps 0, errs by at most half a unit in the last place, commutes
  with the sign and is monotone.
\<close>

lemma double_zero: "double 0 = 0"
  by (simp add: double_def round_half_even_def)

lemma double_error: "\<bar>double x - x\<bar> \<le> 2 powi (max (exponent x) (- 1022) - 53)"
proof -
  define u :: real where "u = 2 powi (max (exponent x) (- 1022) - 52)"
  have u: "0 < u" by (simp add: u_def)
  have "double x - x = (of_int (round_half_even (x / u)) - x / u) * u"
    using u by (simp add: double_def u_def[symmetric] Let_def field_simps)
  then have "\<bar>double x - x\<bar> = \<bar>of_int (round_half_even (x / u)) - x / u\<bar> * u"
    using u by (simp add: abs_mult)
  also have "\<dots> \<le> (1 / 2) * u"
    using u round_half_even_error[of "x / u"] by (intro mult_right_mono) simp_all
  also have "\<dots> = 2 powi (max (exponent x) (- 1022) - 53)"
    by (simp add: u_def power_int_diff)
  finally show ?thesis .
qed

lemma double_relative_error: "\<bar>double x - x\<bar> \<le> \<bar>x\<bar> / 2 ^ 53 + 2 powi (- 1075)"
proof (cases "x = 0")
  case True
  then show ?thesis by (simp add: double_zero)
next
  case False
  have p: "(0::real) \<le> 2 powi (- 1075)" by (rule zero_le_power_int) simp
  have q: "0 \<le> \<bar>x\<bar> / 2 ^ 53" by simp
  show ?thesis
  proof (cases "- 1022 \<le> exponent x")
    case True
    then have "\<bar>double x - x\<bar> \<le> 2 powi (exponent x - 53)"
      using double_error[of x] by (simp add: max_def)
    also have "\<dots> = 2 powi (exponent x) / 2 ^ 53"
      by (simp add: power_int_diff)
    also have "\<dots> \<le> \<bar>x\<bar> / 2 ^ 53"
      using exponent_bounds[OF False] by (simp add: divide_right_mono)
    finally show ?thesis using p by linarith
  next
    case False
    then have m: "max (exponent x) (- 1022) - 53 = - 1075" by simp
    have "\<bar>double x - x\<bar> \<le> 2 powi (- 1075)"
      using double_error[of x] unfolding m .
    then show ?thesis using q by linarith
  qed
qed

lemma subnormal_half_spacing_small: "2 powi (- 1075) \<le> (1::real) / 2 ^ 60"
proof -
  have "(2::real) powi (- 1075) \<le> 2 powi (- 60)"
    by (rule power_int_increasing) simp_all
  also have "\<dots> = 1 / 2 ^ 60"
    by (simp add: power_int_minus_divide)
  finally show ?thesis .
qed






lemma decimal_round_error: "\<bar>decimal_round x n - x\<bar> \<le> 1 / (2 * 10 ^ n)"
proof -
  have "decimal_round x n - x = (of_int (round_half_even (x * 10 ^ n)) - x * 10 ^ n) / 10 ^ n"
    by (simp add: decimal_round_def field_simps)
  then have "\<bar>decimal_round x n - x\<bar>
      = \<bar>of_int (round_half_even (x * 10 ^ n)) - x * 10 ^ n\<bar> / 10 ^ n"
    by (simp add: abs_divide)
  also have "\<dots> \<le> (1 / 2) / 10 ^ n"
    by (intro divide_right_mono round_half_even_error) simp
  finally show ?thesis
    by simp
qed

lemma py_round_zero: "py_round 0 n = 0"
  by (simp add: py_round_def decimal_round_def round_half_even_zero double_zero)


text \<open>The literals of the source as binary64 numbers.\<close>

lemmas double_eval = double_def exponent_def compute_floorlog round_half_even_def

lemma double_literals:
  "double 0.75 = 0.75"
  "double 0.25 = 0.25"
  "double 1.5 = 1.5"
  "double 0.6 = 5404319552844595 / 9007199254740992"
  "double 0.24 = 1080863910568919 / 4503599627370496"
  "double 2.32 = 5224175567749775 / 2251799813685248"
  "double 2.29 = 2578310786669609 / 1125899906842624"
  by (simp_all add: double_eval)

lemma double_fractions:
  "double (3 / 4) = 3 / 4"
  "double (1 / 4) = 1 / 4"
  "double (3 / 2) = 3 / 2"
  "double (3 / 5) = 5404319552844595 / 9007199254740992"
  "double (6 / 25) = 1080863910568919 / 4503599627370496"
  "double (58 / 25) = 5224175567749775 / 2251799813685248"
  "double (229 / 100) = 2578310786669609 / 1125899906842624"
  by (simp_all add: double_eval)

lemmas double_literal_values = double_literals double_fractions

section \<open>The marks of the messages\<close>

lemma severity_of_utils_messages:
  "severity_of be_excellent = Some Good"
  "severity_of be_moderate = Some Warning"
  "severity_of be_low = Some Critical"
  "severity_of hr_high = Some Critical"
  "severity_of hr_slightly_high = Some Warning"
  "severity_of hr_efficient = Some Good"
  "severity_of sfc_high = Some Critical"
  "severity_of sfc_improve = Some Warning"
  "severity_of sfc_efficient = Some Good"
  "severity_of fl_high = Some Critical"
  "severity_of fl_consider = Some Warning"
  "severity_of fl_good = Some Good"
  "severity_of co2_high = Some Warning"
  by (simp_all add: severity_of_def check_mark_def warning_sign_def cross_mark_def
      be_excellent_def be_moderate_def be_low_def hr_high_def hr_slightly_high_def
      hr_efficient_def sfc_high_def sfc_improve_def sfc_efficient_def fl_high_def
      fl_consider_def fl_good_def co2_high_def)


section \<open>The calculators on the example of the spec\<close>

lemma calculate_metrics_example:
  "calculate_metrics 100 5000 400 750 100 200 150 25 =
     [(''Boiler Efficiency (%)'', 52), (''Heat Rate (kcal/kWh)'', 2500),
      (''Specific Fuel Consumption (kg/kWh)'', 0.5),
      (''Flue Gas Loss (%)'', 8106479329266893 / 9007199254740992),
      (''CO2 Emissions (kg/hr)'', 232)]"
  unfolding calculate_metrics_def Let_def py_round_def decimal_round_def
  by (simp add: double_eval)

lemma calculate_metrics_no_coal_no_power:
  "calculate_metrics 0 5000 400 750 100 0 150 25 =
     [(''Boiler Efficiency (%)'', 0), (''Heat Rate (kcal/kWh)'', 0),
      (''Specific Fuel Consumption (kg/kWh)'', 0), (''Flue Gas Loss (%)'', 0),
      (''CO2 Emissions (kg/hr)'', 0)]"
  unfolding calculate_metrics_def Let_def
  by (simp add: double_zero py_round_zero)

lemma calculate_metrics_no_coal:
  "calculate_metrics 0 5000 400 750 100 200 150 25 =
     [(''Boiler Efficiency (%)'', 0), (''Heat Rate (kcal/kWh)'', 0),
      (''Specific Fuel Consumption (kg/kWh)'', 0), (''Flue Gas Loss (%)'', 0),
      (''CO2 Emissions (kg/hr)'', 0)]"
  unfolding calculate_metrics_def Let_def
  by (simp add: double_zero py_round_zero)

lemma calculate_metrics_large_plant:
  "calculate_metrics 4000 5000 400 750 100 200 150 25 =
     [(''Boiler Efficiency (%)'', 5854679515581645 / 4503599627370496),
      (''Heat Rate (kcal/kWh)'', 100000),
      (''Specific Fuel Consumption (kg/kWh)'', 20),
      (''Flue Gas Loss (%)'', 8106479329266893 / 9007199254740992),
      (''CO2 Emissions (kg/hr)'', 9280)]"
  unfolding calculate_metrics_def Let_def py_round_def decimal_round_def
  by (simp add: double_eval)




lemma Batch_generate_recommendations_zero:
  "Batch_generate_recommendations
     [(''Boiler Efficiency'', 0), (''Plant Heat Rate (kcal/kWh)'', 0),
      (''Specific Fuel Consumption (kg/kWh)'', 0), (''Flue Gas Loss'', 0),
      (''CO2 Emissions (kg/hr)'', 0)] =
     [Format avg_be_inefficient 0, Format avg_hr_inefficient 0, Format avg_sfc_high 0,
      Format avg_fl_high 0]"
  by (simp add: Batch_generate_recommendations_def Let_def dict_get_def double_literal_values)

lemma Batch_generate_recommendations_co2_monitor:
  "Batch_generate_recommendations
     [(''Boiler Efficiency'', 90), (''Plant Heat Rate (kcal/kWh)'', 2000),
      (''Specific Fuel Consumption (kg/kWh)'', 0.5), (''Flue Gas Loss'', 3),
      (''CO2 Emissions (kg/hr)'', 5000)] =
     [Format avg_be_excellent 90, Format avg_hr_efficient 2000, Format avg_sfc_efficient 0.5,
      Format avg_fl_optimal 3, Format avg_co2_monitor 5000]"
  by (simp add: Batch_generate_recommendations_def Let_def dict_get_def double_literal_values)

section \<open>The zero guards of calculate_metrics\<close>

text \<open>
  C2. With \<^verbatim>\<open>power_output = 0\<close> the heat rate and the specific fuel consumption
  returned by \<^verbatim>\<open>calculate_metrics\<close> are both 0, whatever the other seven inputs
  are.
\<close>

theorem calculate_metrics_zero_power_output:
  "map_of (calculate_metrics coal_flow gcv steam_flow h_steam h_feed 0 flue_temp ambient_temp)
      ''Heat Rate (kcal/kWh)'' = Some 0
   \<and> map_of (calculate_metrics coal_flow gcv steam_flow h_steam h_feed 0 flue_temp ambient_temp)
      ''Specific Fuel Consumption (kg/kWh)'' = Some 0"
  by (simp add: calculate_metrics_def Let_def py_round_zero)

text \<open>
  C3. When the energy input \<^verbatim>\<open>coal_flow * gcv\<close> is 0, the boiler efficiency and
  the flue gas loss returned by \<^verbatim>\<open>calculate_metrics\<close> are both 0, whatever the
  other inputs are.
\<close>

theorem calculate_metrics_zero_energy_input:
  assumes "coal_flow * gcv = 0"
  shows "map_of (calculate_metrics coal_flow gcv steam_flow h_steam h_feed power_output
            flue_temp ambient_temp) ''Boiler Efficiency (%)'' = Some 0
       \<and> map_of (calculate_metrics coal_flow gcv steam_flow h_steam h_feed power_output
            flue_temp ambient_temp) ''Flue Gas Loss (%)'' = Some 0"
  unfolding calculate_metrics_def Let_def assms double_zero
  by (simp add: py_round_zero)

theorem calculate_metrics_zero_energy_input_witness:
  "(0::real) * 5000 = 0
   \<and> map_of (calculate_metrics 0 5000 400 750 100 200 150 25) ''Boiler Efficiency (%)'' = Some 0
   \<and> map_of (calculate_metrics 0 5000 400 750 100 200 150 25) ''Flue Gas Loss (%)'' = Some 0"
  using calculate_metrics_zero_energy_input[of 0 5000 400 750 100 200 150 25] by simp

section \<open>The CO2 emissions\<close>

text \<open>
  C6, as the claim states it: the CO2 emissions returned are exactly
  \<^verbatim>\<open>coal_flow * EMISSION_FACTOR\<close> for one constant. The result is rounded to two
  decimals: a coal flow of 0.001 returns 0, which is not 0.001 times the factor, and a
  coal flow of 1 returns the float 2.32, so no single factor fits both.
\<close>

theorem co2_emissions_not_exactly_linear:
  "(0::real) \<le> 1 / 1000
   \<and> map_of (calculate_metrics (1 / 1000) 5000 400 750 100 200 150 25)
        ''CO2 Emissions (kg/hr)'' = Some 0
   \<and> (1 / 1000) * 2.32 \<noteq> (0::real)
   \<and> map_of (calculate_metrics 1 5000 400 750 100 200 150 25)
        ''CO2 Emissions (kg/hr)'' = Some (double 2.32)"
  unfolding calculate_metrics_def Let_def py_round_def decimal_round_def
  by (simp add: double_eval)

text \<open>
  The distance between the value returned and the exact product: half a cent from the
  rounding to two decimals, and the rounding errors of the literal 2.32, of the float
  product and of the float that \<^verbatim>\<open>round\<close> returns.
\<close>

lemma co2_emissions_error:
  assumes "0 \<le> coal_flow" and "coal_flow \<le> 10 ^ 6"
  shows "\<bar>py_round (double (coal_flow * double 2.32)) 2 - coal_flow * 2.32\<bar>
           \<le> 0.005 + 1 / 10 ^ 9"
proof -
  define c :: real where "c = double 2.32"
  define a where "a = coal_flow * c"
  define p where "p = double a"
  define r where "r = decimal_round p 2"
  define q where "q = double r"
  define eta :: real where "eta = 2 powi (- 1075)"
  have c: "c = 5224175567749775 / 2251799813685248"
    by (simp add: c_def double_literal_values)
  have eta: "eta \<le> 1 / 1000000000000"
  proof -
    have "eta \<le> 1 / 2 ^ 60"
      unfolding eta_def by (rule subnormal_half_spacing_small)
    also have "\<dots> \<le> 1 / 1000000000000" by simp
    finally show ?thesis .
  qed
  have a0: "0 \<le> a" and a1: "a \<le> 2320000"
    using assms by (simp_all add: a_def c)
  have "\<bar>a - coal_flow * (58 / 25)\<bar> = coal_flow * (58 / 25 - c)"
    using assms(1) by (simp add: a_def c abs_mult algebra_simps)
  also have "\<dots> \<le> 1000000 * (58 / 25 - c)"
    using assms(2) by (intro mult_right_mono) (simp_all add: c)
  also have "\<dots> \<le> 1 / 4000000000"
    by (simp add: c)
  finally have e1: "\<bar>a - coal_flow * (58 / 25)\<bar> \<le> 1 / 4000000000" .
  have "\<bar>p - a\<bar> \<le> \<bar>a\<bar> / 2 ^ 53 + eta"
    unfolding p_def eta_def by (rule double_relative_error)
  also have "\<dots> \<le> 2320000 / 2 ^ 53 + 1 / 1000000000000"
    using a0 a1 eta by (intro add_mono divide_right_mono) simp_all
  also have "\<dots> \<le> 1 / 3000000000" by simp
  finally have e2: "\<bar>p - a\<bar> \<le> 1 / 3000000000" .
  have e3: "\<bar>r - p\<bar> \<le> 1 / 200"
    using decimal_round_error[of p 2] by (simp add: r_def)
  have r1: "\<bar>r\<bar> \<le> 2320001"
    using a0 a1 e2 e3 by linarith
  have "\<bar>q - r\<bar> \<le> \<bar>r\<bar> / 2 ^ 53 + eta"
    unfolding q_def eta_def by (rule double_relative_error)
  also have "\<dots> \<le> 2320001 / 2 ^ 53 + 1 / 1000000000000"
    using r1 eta by (intro add_mono divide_right_mono) simp_all
  also have "\<dots> \<le> 1 / 3000000000" by simp
  finally have e4: "\<bar>q - r\<bar> \<le> 1 / 3000000000" .
  have "\<bar>q - coal_flow * (58 / 25)\<bar> \<le> 1 / 200 + 1 / 1000000000"
    using e1 e2 e3 e4 by linarith
  then show ?thesis
    by (simp add: q_def r_def p_def a_def c_def py_round_def)
qed

text \<open>
  C6, amended. For every coal flow the CO2 emissions returned are
  \<^verbatim>\<open>round(coal_flow * 2.32, 2)\<close> as the floats compute it: the float product of
  the coal flow and the float 2.32, rounded to two decimals, whatever the other inputs
  are. For a coal flow between 0 and a million the value is within 0.005 + 0.000000001
  of the exact \<^verbatim>\<open>coal_flow * 2.32\<close>.
\<close>

theorem co2_emissions_rounded_float_product:
  "map_of (calculate_metrics coal_flow gcv steam_flow h_steam h_feed power_output
      flue_temp ambient_temp) ''CO2 Emissions (kg/hr)''
     = Some (py_round (double (coal_flow * double 2.32)) 2)
   \<and> (0 \<le> coal_flow \<and> coal_flow \<le> 10 ^ 6 \<longrightarrow>
        \<bar>py_round (double (coal_flow * double 2.32)) 2 - coal_flow * 2.32\<bar>
          \<le> 0.005 + 1 / 10 ^ 9)"
  using co2_emissions_error[of coal_flow]
  by (simp add: calculate_metrics_def Let_def)

lemma co2_emissions_three_sixteenths:
  "py_round (double (3 / 16 * double 2.32)) 2 = 7746191359077253 / 18014398509481984"
  unfolding py_round_def decimal_round_def
  by (simp add: double_eval)

theorem co2_emissions_rounded_float_product_witness:
  "(0::real) \<le> 3 / 16 \<and> (3::real) / 16 \<le> 10 ^ 6
   \<and> map_of (calculate_metrics (3 / 16) 5000 400 750 100 200 150 25)
        ''CO2 Emissions (kg/hr)'' = Some (7746191359077253 / 18014398509481984)
   \<and> \<bar>7746191359077253 / 18014398509481984 - 3 / 16 * 2.32\<bar> \<le> (0.005 + 1 / 10 ^ 9 :: real)"
  using co2_emissions_rounded_float_product[of "3 / 16" 5000 400 750 100 200 150 25]
  unfolding co2_emissions_three_sixteenths
  by simp

text \<open>The calculator of Batch_Analysis.py does not round to decimals, and its factor is 2.29.\<close>

lemma Batch_co2_emissions:
  "map_of (Batch_calculate_metrics (Some coal_flow) gcv steam_flow steam_h feed_h power_output
      flue_temp amb_temp) ''CO2 Emissions (kg/hr)'' = Some (double (coal_flow * double 2.29))"
  by (simp add: Batch_calculate_metrics_def Let_def to_numeric_if_notna_else_0_def)

section \<open>The boiler efficiency grows with the steam enthalpy\<close>




section \<open>The recommendations of utils.py\<close>

text \<open>
  C10. \<^verbatim>\<open>generate_recommendations\<close> of utils.py reads each indicator with a
  default of 0, so a dictionary that lacks keys gives what the dictionary with those
  keys at 0 gives. The empty dictionary gives four messages: the boiler efficiency is
  critical, the heat rate, the fuel consumption and the flue gas loss are good, and
  there is no CO2 message. There are five messages exactly when the CO2 emissions
  exceed 8000, and four otherwise.
\<close>

theorem generate_recommendations_defaults:
  "recommendations metrics =
     recommendations
       [(''Boiler Efficiency (%)'', dict_get metrics ''Boiler Efficiency (%)'' 0),
        (''Heat Rate (kcal/kWh)'', dict_get metrics ''Heat Rate (kcal/kWh)'' 0),
        (''Specific Fuel Consumption (kg/kWh)'',
           dict_get metrics ''Specific Fuel Consumption (kg/kWh)'' 0),
        (''Flue Gas Loss (%)'', dict_get metrics ''Flue Gas Loss (%)'' 0),
        (''CO2 Emissions (kg/hr)'', dict_get metrics ''CO2 Emissions (kg/hr)'' 0)]
   \<and> recommendations [] = [be_low, hr_efficient, sfc_efficient, fl_good]
   \<and> map severity_of (recommendations []) = [Some Critical, Some Good, Some Good, Some Good]
   \<and> (length (recommendations metrics) = 5)
        = (8000 < dict_get metrics ''CO2 Emissions (kg/hr)'' 0)
   \<and> (length (recommendations metrics) = 4)
        = (\<not> 8000 < dict_get metrics ''CO2 Emissions (kg/hr)'' 0)
   \<and> generate_recommendations [] =
        be_low @ [CHR 0x0A, CHR 0x0A] @ hr_efficient @ [CHR 0x0A, CHR 0x0A]
          @ sfc_efficient @ [CHR 0x0A, CHR 0x0A] @ fl_good"
  by (simp add: recommendations_def generate_recommendations_def Let_def dict_get_def
      severity_of_utils_messages double_literal_values)

text \<open>
  C1. The claim: a heat rate, a fuel consumption or a flue gas loss of exactly 0 is
  never rated good. With no coal and no power output \<^verbatim>\<open>calculate_metrics\<close> returns
  0 for all three, and \<^verbatim>\<open>generate_recommendations\<close> of utils.py gives each of
  them its message with the check mark.
\<close>

theorem zero_indicators_rated_good:
  "calculate_metrics 0 5000 400 750 100 0 150 25 =
     [(''Boiler Efficiency (%)'', 0), (''Heat Rate (kcal/kWh)'', 0),
      (''Specific Fuel Consumption (kg/kWh)'', 0), (''Flue Gas Loss (%)'', 0),
      (''CO2 Emissions (kg/hr)'', 0)]
   \<and> recommendations (calculate_metrics 0 5000 400 750 100 0 150 25)
       = [be_low, hr_efficient, sfc_efficient, fl_good]
   \<and> severity_of hr_efficient = Some Good
   \<and> severity_of sfc_efficient = Some Good
   \<and> severity_of fl_good = Some Good"
  unfolding calculate_metrics_no_coal_no_power
  by (simp add: recommendations_def Let_def dict_get_def severity_of_utils_messages
      double_literal_values)

text \<open>
  C5. On the example of the spec \<^verbatim>\<open>calculate_metrics\<close> returns the boiler
  efficiency 52, the heat rate 2500 and the fuel consumption 0.5, and the boiler
  efficiency is rated critical. The claim rates the heat rate 2500 a warning;
  \<^verbatim>\<open>generate_recommendations\<close> of utils.py tests \<^verbatim>\<open>hr > 2500\<close> and rates it
  good.
\<close>

theorem end_to_end_example:
  "map_of (calculate_metrics 100 5000 400 750 100 200 150 25) ''Boiler Efficiency (%)''
      = Some 52
   \<and> map_of (calculate_metrics 100 5000 400 750 100 200 150 25) ''Heat Rate (kcal/kWh)''
      = Some 2500
   \<and> map_of (calculate_metrics 100 5000 400 750 100 200 150 25)
        ''Specific Fuel Consumption (kg/kWh)'' = Some 0.5
   \<and> recommendations (calculate_metrics 100 5000 400 750 100 200 150 25)
      = [be_low, hr_efficient, sfc_efficient, fl_good]
   \<and> severity_of be_low = Some Critical
   \<and> severity_of hr_efficient = Some Good"
  unfolding calculate_metrics_example
  by (simp add: recommendations_def Let_def dict_get_def severity_of_utils_messages
      double_literal_values)

text \<open>
  C4, as the claim states it: one message for each of the five indicators, the CO2
  message last, good when the emissions are above 0 and at most 8000. With all five
  indicators present there are only four messages when the CO2 emissions are 0, and
  also when they are 5000.
\<close>

theorem no_co2_message_up_to_8000:
  "recommendations
     [(''Boiler Efficiency (%)'', 90), (''Heat Rate (kcal/kWh)'', 2000),
      (''Specific Fuel Consumption (kg/kWh)'', 0.5), (''Flue Gas Loss (%)'', 3),
      (''CO2 Emissions (kg/hr)'', 0)]
     = [be_excellent, hr_efficient, sfc_efficient, fl_good]
   \<and> recommendations
     [(''Boiler Efficiency (%)'', 90), (''Heat Rate (kcal/kWh)'', 2000),
      (''Specific Fuel Consumption (kg/kWh)'', 0.5), (''Flue Gas Loss (%)'', 3),
      (''CO2 Emissions (kg/hr)'', 5000)]
     = [be_excellent, hr_efficient, sfc_efficient, fl_good]"
  by (simp add: recommendations_def Let_def dict_get_def double_literal_values)

text \<open>
  C4, amended. For every metrics dictionary \<^verbatim>\<open>generate_recommendations\<close> returns
  the join of a list that holds one message for the boiler efficiency, one for the
  heat rate, one for the specific fuel consumption and one for the flue gas loss, in
  this order, and after them at most one more message, for the CO2 emissions: the
  CO2 warning when the emissions exceed 8000, and none when they are 0 or less.
\<close>

theorem generate_recommendations_order:
  "\<exists>b h s f.
      take 4 (recommendations metrics) = [b, h, s, f]
    \<and> b \<in> {be_excellent, be_moderate, be_low}
    \<and> h \<in> {hr_high, hr_slightly_high, hr_efficient}
    \<and> s \<in> {sfc_high, sfc_improve, sfc_efficient}
    \<and> f \<in> {fl_high, fl_consider, fl_good}
    \<and> length (recommendations metrics) \<le> 5
    \<and> (8000 < dict_get metrics ''CO2 Emissions (kg/hr)'' 0
         \<longrightarrow> recommendations metrics = [b, h, s, f, co2_high])
    \<and> (dict_get metrics ''CO2 Emissions (kg/hr)'' 0 \<le> 0
         \<longrightarrow> recommendations metrics = [b, h, s, f])
    \<and> severity_of co2_high = Some Warning
    \<and> generate_recommendations metrics
         = str_join [CHR 0x0A, CHR 0x0A] (recommendations metrics)"
  by (simp add: recommendations_def generate_recommendations_def Let_def
      severity_of_utils_messages)

theorem generate_recommendations_order_witness:
  "8000 < dict_get (calculate_metrics 4000 5000 400 750 100 200 150 25)
            ''CO2 Emissions (kg/hr)'' 0
   \<and> recommendations (calculate_metrics 4000 5000 400 750 100 200 150 25)
       = [be_low, hr_high, sfc_high, fl_good, co2_high]
   \<and> dict_get (calculate_metrics 0 5000 400 750 100 200 150 25)
        ''CO2 Emissions (kg/hr)'' 0 \<le> 0
   \<and> recommendations (calculate_metrics 0 5000 400 750 100 200 150 25)
       = [be_low, hr_efficient, sfc_efficient, fl_good]"
  using generate_recommendations_order[of "calculate_metrics 4000 5000 400 750 100 200 150 25"]
    generate_recommendations_order[of "calculate_metrics 0 5000 400 750 100 200 150 25"]
  unfolding calculate_metrics_large_plant calculate_metrics_no_coal
  by (simp add: recommendations_def Let_def dict_get_def double_literal_values)

section \<open>The average of a batch of identical rows\<close>












section \<open>Rows with a missing or non-numeric value\<close>

lemma notna_to_numeric: "notna (to_numeric c) = numeric c"
  by (cases c) simp_all

lemma numeric_to_numeric: "numeric (to_numeric c) = numeric c"
  by (cases c) simp_all

lemma map_of_coerce_required:
  "map_of (coerce_required row) col =
     map_option (\<lambda>c. if col \<in> set required_columns then to_numeric c else c) (map_of row col)"
  unfolding coerce_required_def by (induction row) auto

lemma row_get_coerce_required:
  "col \<in> set required_columns \<Longrightarrow>
     row_get (coerce_required row) col = to_numeric (row_get row col)"
  by (simp add: row_get_def dict_get_def map_of_coerce_required split: option.splits)

lemma kept_iff_valid:
  "list_all (\<lambda>col. notna (row_get (coerce_required row) col)) required_columns
     = (\<not> InvalidMeasurement row)"
proof -
  have "list_all (\<lambda>col. notna (row_get (coerce_required row) col)) required_columns
      = list_all (\<lambda>col. numeric (row_get row col)) required_columns"
    by (rule list_all_cong[OF refl]) (simp add: row_get_coerce_required notna_to_numeric)
  then show ?thesis
    by (simp add: InvalidMeasurement_def list_all_iff list_ex_iff)
qed

lemma dropna_coerce_required:
  "dropna (map coerce_required rs)
     = map coerce_required (filter (\<lambda>row. \<not> InvalidMeasurement row) rs)"
  by (simp add: dropna_def filter_map comp_def kept_iff_valid)

lemma dropna_numeric:
  "list_all (\<lambda>row. list_all (\<lambda>col. numeric (row_get row col)) required_columns)
     (dropna (map coerce_required rs))"
proof -
  have "\<And>row col. \<not> InvalidMeasurement row \<Longrightarrow> col \<in> set required_columns \<Longrightarrow>
      numeric (row_get (coerce_required row) col)"
    by (auto simp add: row_get_coerce_required numeric_to_numeric InvalidMeasurement_def
        list_ex_iff)
  then show ?thesis
    by (auto simp add: dropna_coerce_required list_all_iff)
qed

lemma coerce_required_sample_row: "coerce_required sample_row = sample_row"
  by (simp add: coerce_required_def sample_row_def required_columns_def)

lemma sample_row_kept:
  "list_all (\<lambda>col. notna (row_get sample_row col)) required_columns"
  by (simp add: sample_row_def required_columns_def row_get_def dict_get_def)

lemma sample_row_gcv_na_dropped:
  "\<not> list_all (\<lambda>col. notna (row_get (coerce_required sample_row_gcv_na) col)) required_columns"
  by (simp add: coerce_required_def sample_row_gcv_na_def required_columns_def row_get_def
      dict_get_def)

lemma sample_row_gcv_text_dropped:
  "\<not> list_all (\<lambda>col. notna (row_get (coerce_required sample_row_gcv_text) col))
       required_columns"
  by (simp add: coerce_required_def sample_row_gcv_text_def required_columns_def row_get_def
      dict_get_def)

lemma dropna_five_and_two:
  "dropna (map coerce_required
      (replicate 5 sample_row @ [sample_row_gcv_na, sample_row_gcv_text]))
     = replicate 5 sample_row"
  using sample_row_kept sample_row_gcv_na_dropped sample_row_gcv_text_dropped
  by (simp add: dropna_def coerce_required_sample_row)

lemma dropna_five:
  "dropna (map coerce_required (replicate 5 sample_row)) = replicate 5 sample_row"
  using sample_row_kept by (simp add: dropna_def coerce_required_sample_row)

text \<open>
  C9, as the claim states it: the exclusion of a row is surfaced as a count. Five
  valid rows followed by a row with a missing GCV and a row with a text for GCV give
  the page that the five valid rows alone give, although two rows are dropped from
  the first table and none from the second: nothing on the page tells the two apart.
\<close>

theorem excluded_rows_not_reported:
  "Batch_Analysis \<lparr>columns = required_columns,
       rows = replicate 5 sample_row @ [sample_row_gcv_na, sample_row_gcv_text]\<rparr>
     = Batch_Analysis \<lparr>columns = required_columns, rows = replicate 5 sample_row\<rparr>
   \<and> excluded_rows \<lparr>columns = required_columns,
       rows = replicate 5 sample_row @ [sample_row_gcv_na, sample_row_gcv_text]\<rparr> = 2
   \<and> excluded_rows \<lparr>columns = required_columns, rows = replicate 5 sample_row\<rparr> = 0"
  by (simp add: Batch_Analysis_def excluded_rows_def dropna_five_and_two[simplified]
      dropna_five[simplified] missing_cols_def)

text \<open>
  C9, amended. In Batch_Analysis.py the rows that reach the calculator are the rows of
  the uploaded table that hold a number in every required column, in their order: a
  row with a missing or non-numeric value in a required column is dropped before.
  Every row that is processed holds a number in each required column, so the page
  never hands a missing value to the calculator. The count of the dropped rows is not
  reported.
\<close>

theorem invalid_rows_dropped_before_calculator:
  "dropna (map coerce_required (rows df))
      = map coerce_required (filter (\<lambda>row. \<not> InvalidMeasurement row) (rows df))
   \<and> (case audit (Batch_Analysis df) of
        MissingColumns cols \<Rightarrow> cols = missing_cols df \<and> cols \<noteq> []
      | NoValidRows \<Rightarrow> missing_cols df = [] \<and> dropna (map coerce_required (rows df)) = []
      | Results final_df recs \<Rightarrow>
          missing_cols df = []
          \<and> map fst final_df = dropna (map coerce_required (rows df))
          \<and> map snd final_df = map row_metrics (map fst final_df)
          \<and> list_all (\<lambda>row. list_all (\<lambda>col. numeric (row_get row col)) required_columns)
               (map fst final_df))"
  using dropna_numeric[of "rows df"]
  by (simp add: dropna_coerce_required Batch_Analysis_def Let_def)

text \<open>
  Two facts beside C9. The calculator of Batch_Analysis.py, called with a missing
  value, replaces it by 0 and computes with it. CSV_Analysis.py drops no row: a row
  with a missing GCV is handed to the calculator as it is.
\<close>

lemma Batch_calculate_metrics_missing_is_zero:
  "Batch_calculate_metrics None gcv steam_flow steam_h feed_h power_output flue_temp amb_temp
     = Batch_calculate_metrics (Some 0) gcv steam_flow steam_h feed_h power_output
         flue_temp amb_temp"
  by (simp add: Batch_calculate_metrics_def to_numeric_if_notna_else_0_def)

lemma CSV_Analysis_calls_keep_invalid_row:
  "CSV_Analysis_calls
     \<lparr>columns = required_columns, rows = [sample_row, sample_row_gcv_na]\<rparr>
     = Some [[Num 100, Num 5000, Num 400, Num 750, Num 100, Num 200, Num 150, Num 25],
             [Num 100, NaN, Num 400, Num 750, Num 100, Num 200, Num 150, Num 25]]"
  by (simp add: CSV_Analysis_calls_def required_columns_def sample_row_def
      sample_row_gcv_na_def row_get_def dict_get_def)

end
